theory Spec2Isabelle
  imports Main "HOL-Library.Sublist"
begin

section \<open>JavaScript values\<close>

text \<open>
  The middleware handles three kinds of run-time values: the text of a line, the value
  that \<^verbatim>\<open>JSON.parse\<close> returns for it, and the document object that
  \<^verbatim>\<open>db.get\<close> resolves to. Strings are lists of code units (restricted to the
  8-bit range), parsed JSON is the datatype \<open>json\<close>, and an object is the association
  list of its properties. A property that is absent reads as \<^verbatim>\<open>undefined\<close>,
  which is \<open>None\<close> here.
\<close>

datatype json =
    JNull
  | JBool bool
  | JNum int
  | JStr string
  | JArr "json list"
  | JObj "(string \<times> json) list"

type_synonym jsobject = "(string \<times> json) list"

datatype js_error = TypeError | SyntaxError | NotFound | Unavailable

definition get_prop :: "jsobject \<Rightarrow> string \<Rightarrow> json option" where
  "get_prop obj k = map_of obj k"

text \<open>Truthiness of a value, as \<^verbatim>\<open>if (v)\<close> and \<^verbatim>\<open>!v\<close> test it.\<close>

fun truthy :: "json option \<Rightarrow> bool" where
  "truthy None = False"
| "truthy (Some JNull) = False"
| "truthy (Some (JBool b)) = b"
| "truthy (Some (JNum n)) = (n \<noteq> 0)"
| "truthy (Some (JStr s)) = (s \<noteq> [])"
| "truthy (Some (JArr xs)) = True"
| "truthy (Some (JObj kvs)) = True"

text \<open>\<^verbatim>\<open>String.prototype.includes\<close>: does \<open>p\<close> occur in \<open>s\<close> as a substring.\<close>

fun str_includes :: "string \<Rightarrow> string \<Rightarrow> bool" where
  "str_includes [] p = (p = [])"
| "str_includes (c # cs) p = (take (length p) (c # cs) = p \<or> str_includes cs p)"

section \<open>The visibility policy: \<^verbatim>\<open>isUserAllowed\<close>\<close>

text \<open>The payload of the verified token that \<^verbatim>\<open>authMiddleware\<close> attaches to the request.\<close>

record user =
  userId :: string
  username :: string
  role :: string

text \<open>
  \<^verbatim>\<open>doc.studentIds.includes(user.userId)\<close>. On an array this is membership, on a
  string it is the substring test; every other value (in particular
  \<^verbatim>\<open>undefined\<close>, when the field is missing) has no callable \<^verbatim>\<open>includes\<close>
  and the call throws a TypeError.
\<close>

fun studentIds_includes :: "json option \<Rightarrow> string \<Rightarrow> js_error + bool" where
  "studentIds_includes (Some (JArr xs)) uid = Inr (JStr uid \<in> set xs)"
| "studentIds_includes (Some (JStr s)) uid = Inr (str_includes s uid)"
| "studentIds_includes v uid = Inl TypeError"

definition isUserAllowed :: "user \<Rightarrow> jsobject \<Rightarrow> js_error + bool" where
  "isUserAllowed u doc =
    (if role u = ''admin'' then Inr True
     else if get_prop doc ''type'' = Some (JStr ''user'') \<and> get_prop doc ''_id'' = Some (JStr (userId u))
       then Inr True
     else if role u = ''teacher'' \<and>
        (get_prop doc ''type'' = Some (JStr ''student'') \<or> get_prop doc ''type'' = Some (JStr ''teacher''))
       then Inr True
     else if get_prop doc ''type'' = Some (JStr ''class'') \<and> role u = ''teacher'' \<and>
        get_prop doc ''teacherId'' = Some (JStr (userId u))
       then Inr True
     else if get_prop doc ''type'' = Some (JStr ''class'') \<and> role u = ''student''
       then (case studentIds_includes (get_prop doc ''studentIds'') (userId u) of
               Inl e \<Rightarrow> Inl e
             | Inr True \<Rightarrow> Inr True
             | Inr False \<Rightarrow> Inr False)
     else Inr False)"

subsection \<open>The policy as the specification words it\<close>

text \<open>
  The specification reduces a document to its type, its owner and the relation it
  encodes, and lists four allowing rules that are tried in order, the first match
  winning and the default being deny. The projections below read these from a stored
  document: a user document is owned by the user it describes, a class document lists
  its members in \<^verbatim>\<open>studentIds\<close> and names its controller in \<^verbatim>\<open>teacherId\<close>.
\<close>

definition docType :: "jsobject \<Rightarrow> string option" where
  "docType doc = (case get_prop doc ''type'' of Some (JStr t) \<Rightarrow> Some t | _ \<Rightarrow> None)"

definition ownerId :: "jsobject \<Rightarrow> string option" where
  "ownerId doc =
    (if docType doc = Some ''user''
     then (case get_prop doc ''_id'' of Some (JStr i) \<Rightarrow> Some i | _ \<Rightarrow> None)
     else None)"

definition members :: "jsobject \<Rightarrow> json list" where
  "members doc = (case get_prop doc ''studentIds'' of Some (JArr xs) \<Rightarrow> xs | _ \<Rightarrow> [])"

definition controller :: "jsobject \<Rightarrow> string option" where
  "controller doc = (case get_prop doc ''teacherId'' of Some (JStr t) \<Rightarrow> Some t | _ \<Rightarrow> None)"

definition blanket_grants :: "(string \<times> string) list" where
  "blanket_grants = [(''teacher'', ''student''), (''teacher'', ''teacher'')]"

type_synonym rule = "user \<Rightarrow> jsobject \<Rightarrow> bool"

fun first_match :: "rule list \<Rightarrow> user \<Rightarrow> jsobject \<Rightarrow> bool" where
  "first_match [] u doc = False"
| "first_match (r # rs) u doc = (if r u doc then True else first_match rs u doc)"

definition rule_admin :: rule where
  "rule_admin u doc = (role u = ''admin'')"

definition rule_owner :: rule where
  "rule_owner u doc = (ownerId doc = Some (userId u))"

definition rule_blanket_grant :: rule where
  "rule_blanket_grant u doc =
    (case docType doc of None \<Rightarrow> False | Some t \<Rightarrow> (role u, t) \<in> set blanket_grants)"

text \<open>Rule 4 as the specification states it: member of the relation, or its controller.\<close>

definition rule_relation_spec :: rule where
  "rule_relation_spec u doc =
    (docType doc = Some ''class'' \<and>
     (JStr (userId u) \<in> set (members doc) \<or> controller doc = Some (userId u)))"

definition decide_spec :: "user \<Rightarrow> jsobject \<Rightarrow> bool" where
  "decide_spec = first_match [rule_admin, rule_owner, rule_blanket_grant, rule_relation_spec]"

text \<open>
  Rule 4 with the role gates of the code: the controller counts for a principal of role
  teacher, membership for a principal of role student.
\<close>

definition rule_relation_by_role :: rule where
  "rule_relation_by_role u doc =
    (docType doc = Some ''class'' \<and>
     (role u = ''teacher'' \<and> controller doc = Some (userId u) \<or>
      role u = ''student'' \<and> JStr (userId u) \<in> set (members doc)))"

definition decide_by_role :: "user \<Rightarrow> jsobject \<Rightarrow> bool" where
  "decide_by_role = first_match [rule_admin, rule_owner, rule_blanket_grant, rule_relation_by_role]"

text \<open>A class document whose \<^verbatim>\<open>studentIds\<close> is an array, as the schema declares it.\<close>

definition roster_is_array :: "jsobject \<Rightarrow> bool" where
  "roster_is_array doc = (case get_prop doc ''studentIds'' of Some (JArr xs) \<Rightarrow> True | _ \<Rightarrow> False)"

subsection \<open>Example principals and documents\<close>

definition teacherP :: user where
  "teacherP = \<lparr>userId = ''user_teacherP'', username = ''teacherP'', role = ''teacher''\<rparr>"

definition studentS :: user where
  "studentS = \<lparr>userId = ''user_S'', username = ''S'', role = ''student''\<rparr>"

definition studentM :: user where
  "studentM = \<lparr>userId = ''user_M'', username = ''M'', role = ''student''\<rparr>"

definition adminA :: user where
  "adminA = \<lparr>userId = ''user_A'', username = ''A'', role = ''admin''\<rparr>"

definition classC :: jsobject where
  "classC = [(''_id'', JStr ''class_C''), (''type'', JStr ''class''),
             (''teacherId'', JStr ''user_teacherP''), (''studentIds'', JArr [JStr ''user_M''])]"

definition studentQ :: jsobject where
  "studentQ = [(''_id'', JStr ''student_Q''), (''type'', JStr ''student''), (''name'', JStr ''Q'')]"

text \<open>A class whose designated teacher is the principal \<open>studentS\<close>, of role student.\<close>

definition classOfS :: jsobject where
  "classOfS = [(''_id'', JStr ''class_D''), (''type'', JStr ''class''),
               (''teacherId'', JStr ''user_S''), (''studentIds'', JArr [JStr ''user_M''])]"

text \<open>A class document stored without the \<^verbatim>\<open>studentIds\<close> field.\<close>

definition classNoRoster :: jsobject where
  "classNoRoster = [(''_id'', JStr ''class_E''), (''type'', JStr ''class''),
                    (''teacherId'', JStr ''user_teacherT'')]"

definition widgetDoc :: jsobject where
  "widgetDoc = [(''_id'', JStr ''widget_1''), (''type'', JStr ''widget'')]"

section \<open>Text of the response stream\<close>

definition nl :: char where
  "nl = CHR 0x0A"

text \<open>The white space that \<^verbatim>\<open>trim\<close> strips, among the code units below 256.\<close>

definition is_ws :: "char \<Rightarrow> bool" where
  "is_ws c = (c \<in> set [CHR 0x09, CHR 0x0A, CHR 0x0B, CHR 0x0C, CHR 0x0D, CHR 0x20, CHR 0xA0])"

definition trim :: "string \<Rightarrow> string" where
  "trim s = rev (dropWhile is_ws (rev (dropWhile is_ws s)))"

text \<open>\<^verbatim>\<open>buffer.lastIndexOf('\n')\<close>, with \<open>None\<close> for the result \<open>-1\<close>.\<close>

fun lastIndexOf_nl :: "string \<Rightarrow> nat option" where
  "lastIndexOf_nl [] = None"
| "lastIndexOf_nl (c # cs) =
    (case lastIndexOf_nl cs of
       Some i \<Rightarrow> Some (Suc i)
     | None \<Rightarrow> if c = nl then Some 0 else None)"

text \<open>\<^verbatim>\<open>s.split('\n')\<close>: the empty string splits into one empty line.\<close>

fun split_nl :: "string \<Rightarrow> string list" where
  "split_nl [] = [[]]"
| "split_nl (c # cs) =
    (if c = nl then [] # split_nl cs
     else (case split_nl cs of
             [] \<Rightarrow> [[c]]
           | l # ls \<Rightarrow> (c # l) # ls))"

text \<open>\<^verbatim>\<open>lines.join('\n')\<close>.\<close>

fun join_nl :: "string list \<Rightarrow> string" where
  "join_nl [] = []"
| "join_nl [l] = l"
| "join_nl (l # m # ls) = l @ nl # join_nl (m # ls)"

section \<open>The filtering middleware: \<^verbatim>\<open>createPouchFilterMiddleware\<close>\<close>

text \<open>
  Two library calls of the middleware are parameters of the model: \<^verbatim>\<open>JSON.parse\<close>,
  which returns a value or throws a SyntaxError (\<open>None\<close>), and \<^verbatim>\<open>db.get\<close>,
  which resolves to a document or rejects.
\<close>

type_synonym parser = "string \<Rightarrow> json option"

type_synonym store = "json \<Rightarrow> js_error + jsobject"

text \<open>
  \<^verbatim>\<open>change.id\<close>: reading a property of \<^verbatim>\<open>null\<close> throws, an object yields
  the property or \<^verbatim>\<open>undefined\<close>, and no other JSON value has an \<^verbatim>\<open>id\<close>.
\<close>

fun change_id :: "json \<Rightarrow> js_error + json option" where
  "change_id JNull = Inl TypeError"
| "change_id (JObj kvs) = Inr (map_of kvs ''id'')"
| "change_id v = Inr None"

text \<open>
  The body of the \<^verbatim>\<open>try\<close> block of the per-line callback. \<open>Inl e\<close>: the block
  threw \<open>e\<close>. \<open>Inr (Some r)\<close>: the block returned \<open>r\<close>, the line or
  \<^verbatim>\<open>null\<close>. \<open>Inr None\<close>: the block ran to its end without returning.
\<close>

definition try_block :: "parser \<Rightarrow> store \<Rightarrow> user \<Rightarrow> string \<Rightarrow> js_error + string option option" where
  "try_block parse db u line =
    (case parse line of
       None \<Rightarrow> Inl SyntaxError
     | Some change \<Rightarrow>
        (case change_id change of
           Inl e \<Rightarrow> Inl e
         | Inr None \<Rightarrow> Inr None
         | Inr (Some idv) \<Rightarrow>
            if truthy (Some idv) then
              (case db idv of
                 Inl e \<Rightarrow> Inl e
               | Inr doc \<Rightarrow>
                  (case isUserAllowed u doc of
                     Inl e \<Rightarrow> Inl e
                   | Inr True \<Rightarrow> Inr (Some (Some line))
                   | Inr False \<Rightarrow> Inr (Some None)))
            else Inr None))"

text \<open>
  The callback mapped over the lines of a chunk. An exception of the \<^verbatim>\<open>try\<close>
  block is caught and dropped, after which the callback returns the line.
\<close>

definition filterLine :: "parser \<Rightarrow> store \<Rightarrow> user \<Rightarrow> string \<Rightarrow> string option" where
  "filterLine parse db u line =
    (if trim line = [] then Some line
     else (case try_block parse db u line of
             Inl e \<Rightarrow> Some line
           | Inr (Some r) \<Rightarrow> r
           | Inr None \<Rightarrow> Some line))"

text \<open>\<^verbatim>\<open>allowedLines.filter(line => line !== null)\<close>.\<close>

fun non_null :: "'a option list \<Rightarrow> 'a list" where
  "non_null [] = []"
| "non_null (None # rs) = non_null rs"
| "non_null (Some l # rs) = l # non_null rs"

definition filteredOutput :: "string option list \<Rightarrow> string" where
  "filteredOutput allowedLines = join_nl (non_null allowedLines) @ [nl]"

subsection \<open>The response object\<close>

text \<open>
  The underlying response is the log of the calls made to its original
  \<^verbatim>\<open>write\<close> and \<^verbatim>\<open>end\<close>, together with the acceptance signal that its
  \<^verbatim>\<open>write\<close> returns (\<open>False\<close> once the consumer is too slow).
\<close>

datatype call = Wrote string | Ended "string option"

record transport =
  calls :: "call list"
  accepting :: bool

definition originalWrite :: "transport \<Rightarrow> string \<Rightarrow> bool \<times> transport" where
  "originalWrite t data = (accepting t, t\<lparr>calls := calls t @ [Wrote data]\<rparr>)"

definition originalEnd :: "transport \<Rightarrow> string option \<Rightarrow> transport" where
  "originalEnd t final = t\<lparr>calls := calls t @ [Ended final]\<rparr>"

text \<open>
  What reaches the client: the data written until the response was ended, with the
  final chunk that \<^verbatim>\<open>end\<close> may carry.
\<close>

fun wire :: "call list \<Rightarrow> string" where
  "wire [] = []"
| "wire (Wrote data # cs) = data @ wire cs"
| "wire (Ended None # cs) = []"
| "wire (Ended (Some data) # cs) = data"

text \<open>
  The state that the closures of one intercepted response share: the line buffer, the
  batches whose \<^verbatim>\<open>Promise.all\<close> has not yet run its \<^verbatim>\<open>then\<close> callback, and
  the underlying response.
\<close>

record session =
  buffer :: string
  pending :: "string option list list"
  res :: transport

definition new_session :: "transport \<Rightarrow> session" where
  "new_session t = \<lparr>buffer = [], pending = [], res = t\<rparr>"

text \<open>
  The override of \<^verbatim>\<open>res.write\<close>. It returns before the batch it has started is
  written; the lookups of the batch read the store as it is at the call. The chunk is a
  string, for which \<^verbatim>\<open>chunk.toString()\<close> is the chunk itself; a chunk that is a
  Buffer, which \<^verbatim>\<open>toString\<close> decodes on its own whatever the chunk before it
  ended with, is outside this model, and every statement below is about responses
  written in string chunks.
\<close>

definition res_write :: "parser \<Rightarrow> store \<Rightarrow> user \<Rightarrow> string \<Rightarrow> session \<Rightarrow> bool \<times> session" where
  "res_write parse db u chunk s =
    (let buf = buffer s @ chunk in
     case lastIndexOf_nl buf of
       None \<Rightarrow> (True, s\<lparr>buffer := buf\<rparr>)
     | Some boundary \<Rightarrow>
         (True, s\<lparr>buffer := drop (Suc boundary) buf,
                  pending := pending s @
                    [map (filterLine parse db u) (split_nl (take boundary buf))]\<rparr>))"

text \<open>The \<^verbatim>\<open>then\<close> callback of the \<open>k\<close>-th pending batch; its write result is dropped.\<close>

definition settle :: "nat \<Rightarrow> session \<Rightarrow> session" where
  "settle k s =
    (if k < length (pending s)
     then s\<lparr>pending := take k (pending s) @ drop (Suc k) (pending s),
            res := snd (originalWrite (res s) (filteredOutput (pending s ! k)))\<rparr>
     else s)"

text \<open>
  The override of \<^verbatim>\<open>res.end\<close>; \<open>final\<close> is the last chunk among its
  arguments, if the caller passes one.
\<close>

definition res_end :: "string option \<Rightarrow> session \<Rightarrow> session" where
  "res_end final s =
    (let t = (if buffer s \<noteq> [] then snd (originalWrite (res s) (buffer s)) else res s)
     in s\<lparr>res := originalEnd t final\<rparr>)"

text \<open>
  What happens to an intercepted response, in the order it happens: the database
  handler writes a chunk (while the store is \<open>db\<close>), a pending batch settles, the
  handler ends the response.
\<close>

datatype event = Write store string | Settle nat | End "string option"

fun step :: "parser \<Rightarrow> user \<Rightarrow> session \<Rightarrow> event \<Rightarrow> session" where
  "step parse u s (Write db chunk) = snd (res_write parse db u chunk s)"
| "step parse u s (Settle k) = settle k s"
| "step parse u s (End final) = res_end final s"

definition run :: "parser \<Rightarrow> user \<Rightarrow> event list \<Rightarrow> session \<Rightarrow> session" where
  "run parse u evs s = foldl (step parse u) s evs"

subsection \<open>The dispatch guard\<close>

record request =
  path :: string
  query_feed :: "json option"
  req_user :: "user option"

text \<open>
  The middleware that \<^verbatim>\<open>createPouchFilterMiddleware(db)\<close> returns either calls
  \<^verbatim>\<open>next()\<close> at once, leaving the response as it is, or first replaces
  \<^verbatim>\<open>res.write\<close> and \<^verbatim>\<open>res.end\<close> by the overrides above. The result
  below says which methods the response carries when the database handler runs.
\<close>

datatype methods = Original | Filtering user

definition createPouchFilterMiddleware :: "request \<Rightarrow> methods" where
  "createPouchFilterMiddleware req =
    (if \<not> str_includes (path req) ''_changes'' \<or> \<not> truthy (query_feed req) \<or> req_user req = None
     then Original
     else (case req_user req of None \<Rightarrow> Original | Some u \<Rightarrow> Filtering u))"

text \<open>The calls of the database handler, as they act on the response it was given.\<close>

fun handler_step :: "methods \<Rightarrow> parser \<Rightarrow> session \<Rightarrow> event \<Rightarrow> session" where
  "handler_step Original parse s (Write db chunk) = s\<lparr>res := snd (originalWrite (res s) chunk)\<rparr>"
| "handler_step Original parse s (Settle k) = s"
| "handler_step Original parse s (End final) = s\<lparr>res := originalEnd (res s) final\<rparr>"
| "handler_step (Filtering u) parse s ev = step parse u s ev"

definition respond :: "request \<Rightarrow> parser \<Rightarrow> event list \<Rightarrow> transport \<Rightarrow> session" where
  "respond req parse evs t =
    foldl (handler_step (createPouchFilterMiddleware req) parse) (new_session t) evs"

text \<open>The calls the handler itself makes, for comparison.\<close>

fun handler_calls :: "event list \<Rightarrow> call list" where
  "handler_calls [] = []"
| "handler_calls (Write db chunk # evs) = Wrote chunk # handler_calls evs"
| "handler_calls (Settle k # evs) = handler_calls evs"
| "handler_calls (End final # evs) = Ended final # handler_calls evs"

subsection \<open>An example feed\<close>

definition line1 :: string where
  \<open>line1 = ''{"seq":1,"id":"class_C","changes":[{"rev":"1-a"}]}''\<close>

definition line2 :: string where
  \<open>line2 = ''{"seq":2,"id":"student_Q","changes":[{"rev":"1-b"}]}''\<close>

definition line3 :: string where
  \<open>line3 = ''{"seq":3,"id":"class_C","changes":[{"rev":"2-c"}],"deleted":true}''\<close>

definition last_seq_line :: string where
  \<open>last_seq_line = ''{"last_seq":3,"pending":0}''\<close>

text \<open>What \<^verbatim>\<open>JSON.parse\<close> returns on the lines of the example feed.\<close>

definition feed_parse :: parser where
  "feed_parse = map_of
    [(line1, JObj [(''seq'', JNum 1), (''id'', JStr ''class_C''),
                   (''changes'', JArr [JObj [(''rev'', JStr ''1-a'')]])]),
     (line2, JObj [(''seq'', JNum 2), (''id'', JStr ''student_Q''),
                   (''changes'', JArr [JObj [(''rev'', JStr ''1-b'')]])]),
     (line3, JObj [(''seq'', JNum 3), (''id'', JStr ''class_C''),
                   (''changes'', JArr [JObj [(''rev'', JStr ''2-c'')]]),
                   (''deleted'', JBool True)]),
     (last_seq_line, JObj [(''last_seq'', JNum 3), (''pending'', JNum 0)])]"

definition store_of :: "(json \<times> jsobject) list \<Rightarrow> store" where
  "store_of docs idv = (case map_of docs idv of None \<Rightarrow> Inl NotFound | Some doc \<Rightarrow> Inr doc)"

text \<open>The store while class C exists, after class C was deleted, and while it is down.\<close>

definition store_live :: store where
  "store_live = store_of [(JStr ''class_C'', classC), (JStr ''student_Q'', studentQ)]"

definition store_after_delete :: store where
  "store_after_delete = store_of [(JStr ''student_Q'', studentQ)]"

definition store_down :: store where
  "store_down idv = Inl Unavailable"

text \<open>Class C created anew by another teacher after its deletion.\<close>

definition classC_again :: jsobject where
  "classC_again = [(''_id'', JStr ''class_C''), (''type'', JStr ''class''),
                   (''teacherId'', JStr ''user_teacherT''), (''studentIds'', JArr [])]"

definition store_recreated :: store where
  "store_recreated = store_of [(JStr ''class_C'', classC_again), (JStr ''student_Q'', studentQ)]"

definition idle :: transport where
  "idle = \<lparr>calls = [], accepting = True\<rparr>"

definition congested :: transport where
  "congested = \<lparr>calls = [], accepting = False\<rparr>"

text \<open>
  The example of the specification: the feed delivers the change of class C, the change
  of the student document Q, and, once class C is deleted, its deletion.
\<close>

definition scenario :: "event list" where
  "scenario =
    [Write store_live (line1 @ [nl]), Settle 0,
     Write store_live (line2 @ [nl]), Settle 0,
     Write store_after_delete (line3 @ [nl]), Settle 0,
     End None]"

definition changes_request :: request where
  "changes_request = \<lparr>path = ''/school-data-shared/_changes'',
                       query_feed = Some (JStr ''longpoll''), req_user = Some teacherP\<rparr>"

definition document_request :: request where
  "document_request = \<lparr>path = ''/school-data-shared/class_C'',
                        query_feed = None, req_user = Some studentS\<rparr>"

subsection \<open>The vocabulary of the specification\<close>

text \<open>
  A change record is a line that is not blank and parses to a value with a truthy
  \<^verbatim>\<open>id\<close>; every other line (heartbeat, text that is not JSON, JSON without an
  id such as the terminator carrying \<^verbatim>\<open>last_seq\<close>) is not.
\<close>

definition is_change_record :: "parser \<Rightarrow> string \<Rightarrow> bool" where
  "is_change_record parse line =
    (trim line \<noteq> [] \<and>
     (case parse line of
        None \<Rightarrow> False
      | Some change \<Rightarrow> (case change_id change of Inl e \<Rightarrow> False | Inr idv \<Rightarrow> truthy idv)))"

text \<open>The lookup of the line's document succeeds and the policy decides deny.\<close>

definition lookup_denies :: "parser \<Rightarrow> store \<Rightarrow> user \<Rightarrow> string \<Rightarrow> bool" where
  "lookup_denies parse db u line =
    (case parse line of
       None \<Rightarrow> False
     | Some change \<Rightarrow>
        (case change_id change of
           Inr (Some idv) \<Rightarrow>
             (case db idv of Inl e \<Rightarrow> False | Inr doc \<Rightarrow> isUserAllowed u doc = Inr False)
         | _ \<Rightarrow> False))"

text \<open>The record of the line has its \<^verbatim>\<open>deleted\<close> flag set.\<close>

definition is_deletion :: "parser \<Rightarrow> string \<Rightarrow> bool" where
  "is_deletion parse line =
    (case parse line of Some (JObj kvs) \<Rightarrow> truthy (map_of kvs ''deleted'') | _ \<Rightarrow> False)"

subsection \<open>Schedules and the lines on the wire\<close>


text \<open>The lines for which the per-line callback does not return \<^verbatim>\<open>null\<close>.\<close>

definition kept :: "parser \<Rightarrow> store \<Rightarrow> user \<Rightarrow> string list \<Rightarrow> string list" where
  "kept parse db u ls = filter (\<lambda>l. filterLine parse db u l \<noteq> None) ls"


text \<open>The underlying \<^verbatim>\<open>end\<close> has not been called.\<close>

fun not_ended :: "call list \<Rightarrow> bool" where
  "not_ended [] = True"
| "not_ended (Wrote data # cs) = not_ended cs"
| "not_ended (Ended final # cs) = False"


text \<open>
  Where the batch that is pending at index \<open>i\<close> stands after the events: settling a
  batch before it moves it down by one, settling it removes it (\<open>None\<close>).
\<close>

fun still_pending :: "event list \<Rightarrow> nat \<Rightarrow> nat option" where
  "still_pending [] i = Some i"
| "still_pending (Write db chunk # evs) i = still_pending evs i"
| "still_pending (End final # evs) i = still_pending evs i"
| "still_pending (Settle j # evs) i =
    (if j = i then None else if j < i then still_pending evs (i - 1) else still_pending evs i)"

section \<open>Properties of the visibility policy\<close>

lemma type_is: "get_prop doc ''type'' = Some (JStr t) \<longleftrightarrow> docType doc = Some t"
  by (simp add: docType_def split: option.splits json.splits)

lemma owner_is:
  "ownerId doc = Some i \<longleftrightarrow>
     docType doc = Some ''user'' \<and> get_prop doc ''_id'' = Some (JStr i)"
  by (simp add: ownerId_def split: option.splits json.splits)

lemma controller_is: "get_prop doc ''teacherId'' = Some (JStr t) \<longleftrightarrow> controller doc = Some t"
  by (simp add: controller_def split: option.splits json.splits)

lemma roster_includes:
  "roster_is_array doc \<Longrightarrow>
     studentIds_includes (get_prop doc ''studentIds'') uid = Inr (JStr uid \<in> set (members doc))"
  by (simp add: roster_is_array_def members_def split: option.splits json.splits)

lemma isUserAllowed_alt:
  "isUserAllowed u doc =
    (if role u = ''admin'' then Inr True
     else if ownerId doc = Some (userId u) then Inr True
     else if role u = ''teacher'' \<and> (docType doc = Some ''student'' \<or> docType doc = Some ''teacher'')
       then Inr True
     else if docType doc = Some ''class'' \<and> role u = ''teacher'' \<and> controller doc = Some (userId u)
       then Inr True
     else if docType doc = Some ''class'' \<and> role u = ''student''
       then (case studentIds_includes (get_prop doc ''studentIds'') (userId u) of
               Inl e \<Rightarrow> Inl e | Inr b \<Rightarrow> Inr b)
     else Inr False)"
  by (simp add: isUserAllowed_def type_is owner_is controller_is split: sum.splits bool.splits)

lemma decide_by_role_alt:
  "decide_by_role u doc =
    (role u = ''admin'' \<or> ownerId doc = Some (userId u) \<or>
     role u = ''teacher'' \<and> (docType doc = Some ''student'' \<or> docType doc = Some ''teacher'') \<or>
     docType doc = Some ''class'' \<and>
       (role u = ''teacher'' \<and> controller doc = Some (userId u) \<or>
        role u = ''student'' \<and> JStr (userId u) \<in> set (members doc)))"
  by (auto simp: decide_by_role_def rule_admin_def rule_owner_def rule_blanket_grant_def
        rule_relation_by_role_def blanket_grants_def split: option.splits)

lemma isUserAllowed_admin: "role u = ''admin'' \<Longrightarrow> isUserAllowed u doc = Inr True"
  by (simp add: isUserAllowed_def)

lemma isUserAllowed_unknown_type:
  assumes "role u \<noteq> ''admin''"
    and "docType doc \<notin> {Some ''user'', Some ''student'', Some ''teacher'', Some ''class''}"
  shows "isUserAllowed u doc = Inr False"
  using assms by (simp add: isUserAllowed_alt owner_is)

lemma isUserAllowed_returns:
  assumes "role u = ''student'' \<and> docType doc = Some ''class'' \<longrightarrow> roster_is_array doc"
  shows "\<exists>b. isUserAllowed u doc = Inr b"
proof (cases "role u = ''student'' \<and> docType doc = Some ''class''")
  case True
  with assms have "roster_is_array doc" by simp
  from roster_includes [OF this, of "userId u"] show ?thesis
    by (auto simp add: isUserAllowed_alt)
next
  case False
  then show ?thesis by (auto simp add: isUserAllowed_alt)
qed

lemma unknown_type_examples:
  "isUserAllowed studentS widgetDoc = Inr False \<and> isUserAllowed teacherP widgetDoc = Inr False
   \<and> isUserAllowed adminA widgetDoc = Inr True"
  by (simp add: isUserAllowed_def get_prop_def studentS_def teacherP_def adminA_def widgetDoc_def)

text \<open>
  Claim C5 as stated: the decision is the first match among administrative role, owner
  identity, blanket role grant over the document type, and membership in or
  controllership of the encoded relation, else deny. It fails on the code: the principal
  \<open>studentS\<close> is the designated teacher of \<open>classOfS\<close>, so rule 4 of the
  specification allows, while the code denies, because it honours the controller only
  for a principal of role teacher.
\<close>

theorem C5_counterexample:
  "decide_spec studentS classOfS \<and> isUserAllowed studentS classOfS = Inr False"
  by (simp add: decide_spec_def rule_admin_def rule_owner_def rule_blanket_grant_def
        rule_relation_spec_def ownerId_def docType_def controller_def members_def
        blanket_grants_def isUserAllowed_def get_prop_def studentS_def classOfS_def)

text \<open>
  Claim C5, amended: on every document whose roster the code can read, the decision of
  \<open>isUserAllowed\<close> is the first match, in this order, of (1) administrative role,
  (2) owner identity equal to the principal id, (3) blanket role grant over the
  document type, (4) controller of the class for a principal of role teacher or member
  of the class for a principal of role student, and (5) deny otherwise.
\<close>

theorem C5_first_match_by_role:
  assumes "role u = ''student'' \<and> docType doc = Some ''class'' \<longrightarrow> roster_is_array doc"
  shows "isUserAllowed u doc = Inr (decide_by_role u doc)"
proof (cases "role u = ''student'' \<and> docType doc = Some ''class''")
  case True
  with assms have "roster_is_array doc" by simp
  from roster_includes [OF this, of "userId u"] True show ?thesis
    by (auto simp add: isUserAllowed_alt decide_by_role_alt)
next
  case False
  then show ?thesis
    by (auto simp add: isUserAllowed_alt decide_by_role_alt)
qed

theorem C5_first_match_by_role_witness:
  "role studentM = ''student'' \<and> docType classC = Some ''class'' \<and> roster_is_array classC
   \<and> isUserAllowed studentM classC = Inr (decide_by_role studentM classC)
   \<and> decide_by_role studentM classC"
  using C5_first_match_by_role [of studentM classC]
  by (simp add: studentM_def classC_def decide_by_role_alt ownerId_def docType_def
        controller_def members_def roster_is_array_def get_prop_def)

text \<open>
  Claim C6: the policy returns a decision for every principal and every document,
  class documents without \<^verbatim>\<open>studentIds\<close> included. The code does not: for the
  principal \<open>studentS\<close> and the class document \<open>classNoRoster\<close> the call
  \<^verbatim>\<open>doc.studentIds.includes\<close> throws a TypeError and no decision is returned.
\<close>

theorem C6_missing_roster_throws:
  "isUserAllowed studentS classNoRoster = Inl TypeError"
  by (simp add: isUserAllowed_def get_prop_def studentS_def classNoRoster_def)

section \<open>Properties of the per-line filter\<close>

lemma filterLine_cases: "filterLine parse db u l = Some l \<or> filterLine parse db u l = None"
  by (simp add: filterLine_def try_block_def split: option.splits sum.splits bool.splits)

lemma filterLine_None_iff:
  "filterLine parse db u l = None \<longleftrightarrow> is_change_record parse l \<and> lookup_denies parse db u l"
  by (auto simp add: filterLine_def try_block_def is_change_record_def lookup_denies_def
        split: option.splits sum.splits bool.splits)


lemma lookup_error_forwarded:
  assumes "parse l = Some change" and "change_id change = Inr (Some idv)" and "db idv = Inl e"
  shows "filterLine parse db u l = Some l"
  using assms filterLine_cases [of parse db u l]
  by (auto simp add: filterLine_None_iff lookup_denies_def)

lemma non_null_filterLine:
  "non_null (map (filterLine parse db u) ls) = filter (\<lambda>l. filterLine parse db u l \<noteq> None) ls"
proof (induction ls)
  case Nil
  show ?case by simp
next
  case (Cons l ls)
  from filterLine_cases [of parse db u l] Cons show ?case by auto
qed

section \<open>Properties of the line splitting\<close>

lemma split_nl_single: "nl \<notin> set l \<Longrightarrow> split_nl l = [l]"
  by (induction l) auto


lemma lastIndexOf_nl_none: "nl \<notin> set l \<Longrightarrow> lastIndexOf_nl l = None"
  by (induction l) auto

lemma lastIndexOf_nl_last: "lastIndexOf_nl (x @ [nl]) = Some (length x)"
  by (induction x) auto

lemma res_write_one_line:
  assumes "nl \<notin> set l" and "buffer s = []"
  shows "res_write parse db u (l @ [nl]) s
           = (True, s\<lparr>pending := pending s @ [[filterLine parse db u l]]\<rparr>)"
  using assms by (simp add: res_write_def lastIndexOf_nl_last split_nl_single)

lemma res_write_partial:
  assumes "nl \<notin> set l" and "buffer s = []"
  shows "res_write parse db u l s = (True, s\<lparr>buffer := l\<rparr>)"
  using assms by (simp add: res_write_def lastIndexOf_nl_none)

lemma res_write_newline:
  "snd (res_write parse db u [nl] s)
     = s\<lparr>buffer := [], pending := pending s @ [map (filterLine parse db u) (split_nl (buffer s))]\<rparr>"
  using lastIndexOf_nl_last [of "buffer s"] by (simp add: res_write_def)

lemma res_write_accepts: "fst (res_write parse db u chunk s) = True"
  by (simp add: res_write_def Let_def split: option.splits)

lemma settle_last:
  "settle (length (pending s)) (s\<lparr>buffer := b, pending := pending s @ [batch]\<rparr>)
     = s\<lparr>buffer := b, res := snd (originalWrite (res s) (filteredOutput batch))\<rparr>"
  by (simp add: settle_def)

lemma res_end_final_chunk:
  "calls (res (res_end final s)) =
     calls (res s) @ (if buffer s \<noteq> [] then [Wrote (buffer s)] else []) @ [Ended final]"
  by (simp add: res_end_def originalWrite_def originalEnd_def Let_def)

section \<open>The example feed, evaluated\<close>

lemma no_nl_line1: "nl \<notin> set line1" by (simp add: line1_def nl_def)
lemma no_nl_line2: "nl \<notin> set line2" by (simp add: line2_def nl_def)
lemma no_nl_line3: "nl \<notin> set line3" by (simp add: line3_def nl_def)

lemma trim_line1: "trim line1 \<noteq> []" by (simp add: trim_def line1_def is_ws_def)
lemma trim_line2: "trim line2 \<noteq> []" by (simp add: trim_def line2_def is_ws_def)
lemma trim_line3: "trim line3 \<noteq> []" by (simp add: trim_def line3_def is_ws_def)
lemma trim_last_seq: "trim last_seq_line \<noteq> []" by (simp add: trim_def last_seq_line_def is_ws_def)

lemma parse_line1:
  "feed_parse line1 = Some (JObj [(''seq'', JNum 1), (''id'', JStr ''class_C''),
                   (''changes'', JArr [JObj [(''rev'', JStr ''1-a'')]])])"
  by (simp add: feed_parse_def)

lemma parse_line2:
  "feed_parse line2 = Some (JObj [(''seq'', JNum 2), (''id'', JStr ''student_Q''),
                   (''changes'', JArr [JObj [(''rev'', JStr ''1-b'')]])])"
  by (simp add: feed_parse_def line1_def line2_def)

lemma parse_line3:
  "feed_parse line3 = Some (JObj [(''seq'', JNum 3), (''id'', JStr ''class_C''),
                   (''changes'', JArr [JObj [(''rev'', JStr ''2-c'')]]),
                   (''deleted'', JBool True)])"
  by (simp add: feed_parse_def line1_def line2_def line3_def)

lemma parse_last_seq:
  "feed_parse last_seq_line = Some (JObj [(''last_seq'', JNum 3), (''pending'', JNum 0)])"
  by (simp add: feed_parse_def line1_def line2_def line3_def last_seq_line_def)

lemma denied_S_classC: "isUserAllowed studentS classC = Inr False"
  by (simp add: isUserAllowed_def get_prop_def studentS_def classC_def)

lemma allowed_P_classC: "isUserAllowed teacherP classC = Inr True"
  by (simp add: isUserAllowed_def get_prop_def teacherP_def classC_def)

lemma allowed_P_studentQ: "isUserAllowed teacherP studentQ = Inr True"
  by (simp add: isUserAllowed_def get_prop_def teacherP_def studentQ_def)

lemma denied_P_classC_again: "isUserAllowed teacherP classC_again = Inr False"
  by (simp add: isUserAllowed_def get_prop_def teacherP_def classC_again_def)

lemma live_class_C: "store_live (JStr ''class_C'') = Inr classC"
  by (simp add: store_live_def store_of_def)

lemma live_student_Q: "store_live (JStr ''student_Q'') = Inr studentQ"
  by (simp add: store_live_def store_of_def)

lemma after_delete_class_C: "store_after_delete (JStr ''class_C'') = Inl NotFound"
  by (simp add: store_after_delete_def store_of_def)

lemma recreated_class_C: "store_recreated (JStr ''class_C'') = Inr classC_again"
  by (simp add: store_recreated_def store_of_def)

lemma filter_S_line1: "filterLine feed_parse store_live studentS line1 = None"
  by (simp add: filterLine_def try_block_def trim_line1 parse_line1 live_class_C denied_S_classC)

lemma filter_P_line1: "filterLine feed_parse store_live teacherP line1 = Some line1"
  by (simp add: filterLine_def try_block_def trim_line1 parse_line1 live_class_C allowed_P_classC)

lemma filter_P_line2: "filterLine feed_parse store_live teacherP line2 = Some line2"
  by (simp add: filterLine_def try_block_def trim_line2 parse_line2 live_student_Q
        allowed_P_studentQ)

lemma filter_P_line3: "filterLine feed_parse store_after_delete teacherP line3 = Some line3"
  by (simp add: filterLine_def try_block_def trim_line3 parse_line3 after_delete_class_C)

lemma filter_P_line3_recreated: "filterLine feed_parse store_recreated teacherP line3 = None"
  by (simp add: filterLine_def try_block_def trim_line3 parse_line3 recreated_class_C
        denied_P_classC_again)

lemma filter_down_line1: "filterLine feed_parse store_down u line1 = Some line1"
  by (simp add: filterLine_def try_block_def trim_line1 parse_line1 store_down_def)

lemma filter_last_seq: "filterLine feed_parse db u last_seq_line = Some last_seq_line"
  by (simp add: filterLine_def try_block_def trim_last_seq parse_last_seq)

lemma deletion_line3: "is_deletion feed_parse line3"
  by (simp add: is_deletion_def parse_line3)

lemma scenario_calls:
  "calls (res (run feed_parse teacherP scenario (new_session idle)))
     = [Wrote (line1 @ [nl]), Wrote (line2 @ [nl]), Wrote (line3 @ [nl]), Ended None]"
  by (simp add: scenario_def run_def res_write_one_line [OF no_nl_line1]
        res_write_one_line [OF no_nl_line2] res_write_one_line [OF no_nl_line3]
        settle_def filteredOutput_def filter_P_line1 filter_P_line2 filter_P_line3
        res_end_def originalWrite_def originalEnd_def new_session_def idle_def)

section \<open>Properties of the response text\<close>









lemma wire_append: "not_ended cs \<Longrightarrow> wire (cs @ cs') = wire cs @ wire cs'"
  by (induction cs rule: not_ended.induct) simp_all


section \<open>Properties of the schedules\<close>











lemma run_Cons: "run parse u (ev # evs) s = run parse u evs (step parse u s ev)"
  by (simp add: run_def)

lemma run_append: "run parse u (evs @ evs') s = run parse u evs' (run parse u evs s)"
  by (simp add: run_def)



lemma nth_without_before: "j < i \<Longrightarrow> i < length p \<Longrightarrow> (take j p @ drop (Suc j) p) ! (i - Suc 0) = p ! i"
  by (auto simp add: nth_append min_def)

lemma nth_without_after: "i < j \<Longrightarrow> j < length p \<Longrightarrow> (take j p @ drop (Suc j) p) ! i = p ! i"
  by (simp add: nth_append)

lemma pending_res_write:
  "i < length (pending s) \<Longrightarrow>
     i < length (pending (snd (res_write parse db u chunk s))) \<and>
     pending (snd (res_write parse db u chunk s)) ! i = pending s ! i"
  by (simp add: res_write_def Let_def nth_append split: option.splits)

lemma pending_tracked:
  assumes "i < length (pending s)" and "still_pending evs i = Some k"
  shows "k < length (pending (run parse u evs s)) \<and> pending (run parse u evs s) ! k = pending s ! i"
  using assms
proof (induction evs arbitrary: s i)
  case Nil
  then show ?case by (simp add: run_def)
next
  case (Cons ev evs)
  show ?case
  proof (cases ev)
    case (Write db chunk)
    with Cons.prems have "still_pending evs i = Some k" by simp
    with Cons.IH [of i "snd (res_write parse db u chunk s)"] pending_res_write [OF Cons.prems(1)]
    show ?thesis using Write by (simp add: run_Cons)
  next
    case (End final)
    with Cons.prems have "still_pending evs i = Some k" by simp
    with Cons.IH [of i "res_end final s"] Cons.prems(1)
    show ?thesis using End by (simp add: run_Cons res_end_def Let_def)
  next
    case (Settle j)
    show ?thesis
    proof (cases "j < i")
      case True
      with Cons.prems Settle have sp: "still_pending evs (i - 1) = Some k" by simp
      from True Cons.prems(1) have "i - 1 < length (pending (settle j s))"
        "pending (settle j s) ! (i - 1) = pending s ! i"
        by (simp_all add: settle_def nth_without_before) 
      with Cons.IH [OF _ sp, of "settle j s"] show ?thesis
        using Settle by (simp add: run_Cons)
    next
      case False
      with Cons.prems Settle have ji: "i < j" and sp: "still_pending evs i = Some k"
        by (simp_all split: if_splits)
      from ji Cons.prems(1) have "i < length (pending (settle j s))"
        "pending (settle j s) ! i = pending s ! i"
        by (auto simp add: settle_def nth_without_after)
      with Cons.IH [OF _ sp, of "settle j s"] show ?thesis
        using Settle by (simp add: run_Cons)
    qed
  qed
qed

lemma settle_wire:
  assumes "k < length (pending s)" and "not_ended (calls (res s))"
  shows "wire (calls (res (settle k s))) = wire (calls (res s)) @ filteredOutput (pending s ! k)"
  using assms by (simp add: settle_def originalWrite_def wire_append)

lemma batch_reaches_client:
  assumes "lastIndexOf_nl (buffer s @ chunk) = Some b"
    and "ls = split_nl (take b (buffer s @ chunk))"
    and "still_pending mid (length (pending s)) = Some k"
    and "s1 = run parse u (Write db chunk # mid) s"
    and "not_ended (calls (res s1))"
    and "s' = run parse u (Write db chunk # mid @ [Settle k]) s"
  shows "wire (calls (res s')) = wire (calls (res s1)) @ join_nl (kept parse db u ls) @ [nl]"
proof -
  let ?s0 = "snd (res_write parse db u chunk s)"
  from assms(1,2) have p0: "length (pending s) < length (pending ?s0)"
      "pending ?s0 ! length (pending s) = map (filterLine parse db u) ls"
    by (simp_all add: res_write_def)
  have s1: "s1 = run parse u mid ?s0"
    using assms(4) by (simp add: run_Cons)
  from pending_tracked [OF p0(1) assms(3), of parse u] p0(2) s1
  have k: "k < length (pending s1)" "pending s1 ! k = map (filterLine parse db u) ls"
    by simp_all
  have "s' = settle k s1"
    using assms(4,6) by (simp add: run_Cons run_append) (simp add: run_def)
  with settle_wire [OF k(1) assms(5)] k(2) show ?thesis
    by (simp add: filteredOutput_def non_null_filterLine kept_def)
qed

section \<open>Properties of the filtered stream\<close>

text \<open>
  Claim C1: a change line whose lookup succeeds and whose decision is deny is never
  written to the client, the flush of the partial buffer at the end of the response
  included. The override of \<^verbatim>\<open>res.end\<close> writes the buffer as it is: the
  handler writes the line of class C without a final newline and ends the response,
  the lookup of class C succeeds, the policy denies it to \<open>studentS\<close>, the filter
  applied to the line would drop it, and the line is written all the same.
\<close>

theorem C1_end_flush_leaks:
  "store_live (JStr ''class_C'') = Inr classC \<and> isUserAllowed studentS classC = Inr False \<and>
   filterLine feed_parse store_live studentS line1 = None \<and>
   calls (res (run feed_parse studentS [Write store_live line1, End None] (new_session idle)))
     = [Wrote line1, Ended None]"
proof -
  have "line1 \<noteq> []" by (simp add: line1_def)
  then have "calls (res (run feed_parse studentS [Write store_live line1, End None]
                 (new_session idle))) = [Wrote line1, Ended None]"
    by (simp add: run_def res_write_partial [OF no_nl_line1] res_end_def originalWrite_def
          originalEnd_def new_session_def idle_def)
  with live_class_C denied_S_classC filter_S_line1 show ?thesis by simp
qed

text \<open>
  Claim C2: a change record whose lookup errors is not forwarded. The code forwards it:
  with a store that rejects every lookup, the rejection is caught by the handler meant
  for lines that are not JSON, the callback returns the line, and the line of class C
  reaches \<open>studentS\<close>, to whom class C is denied when the lookup works.
\<close>

theorem C2_lookup_error_forwarded:
  "store_down (JStr ''class_C'') = Inl Unavailable \<and>
   filterLine feed_parse store_down studentS line1 = Some line1 \<and>
   calls (res (run feed_parse studentS [Write store_down (line1 @ [nl]), Settle 0]
                 (new_session idle))) = [Wrote (line1 @ [nl])]"
  by (simp add: run_def res_write_one_line [OF no_nl_line1] settle_def filteredOutput_def
        filter_down_line1 originalWrite_def new_session_def idle_def store_down_def)

text \<open>
  Claim C3 as stated: a line with the deleted flag set is forwarded whatever the lookup
  answers, once its document had been forwarded to the principal. It fails when the
  lookup succeeds: the change of class C was forwarded to \<open>teacherP\<close>; class C is
  then deleted and created anew by another teacher before the lookup for the deletion
  line runs; the lookup finds the new document, the policy denies it, and the deletion
  line is dropped (the batch is written as a bare newline).
\<close>

theorem C3_counterexample:
  "is_deletion feed_parse line3 \<and>
   filterLine feed_parse store_live teacherP line1 = Some line1 \<and>
   store_recreated (JStr ''class_C'') = Inr classC_again \<and>
   filterLine feed_parse store_recreated teacherP line3 = None \<and>
   calls (res (run feed_parse teacherP [Write store_recreated (line3 @ [nl]), Settle 0]
                 (new_session idle))) = [Wrote [nl]]"
proof -
  have "calls (res (run feed_parse teacherP [Write store_recreated (line3 @ [nl]), Settle 0]
                 (new_session idle))) = [Wrote [nl]]"
    by (simp add: run_def res_write_one_line [OF no_nl_line3] settle_def filteredOutput_def
          filter_P_line3_recreated originalWrite_def new_session_def idle_def)
  with deletion_line3 filter_P_line1 recreated_class_C filter_P_line3_recreated
  show ?thesis by simp
qed

text \<open>
  Claim C3, amended: a change line with the deleted flag set, completed by a write,
  reaches the client when the lookup of its document answers not-found, provided the
  batch of that write settles while the response has not been ended, whatever was
  written or settled in between. The data then added to what the client receives is
  the lines kept of that write, joined and terminated by a newline, and the deletion
  line is one of them. The filter never reads the flag: when the lookup succeeds, the
  line is among the lines kept if the decision on the document found is allow, and is
  not if the decision is deny.
\<close>

theorem C3_deletion_reaches_client:
  assumes "is_deletion parse line" and "trim line \<noteq> []"
    and "parse line = Some change" and "change_id change = Inr (Some idv)"
    and "truthy (Some idv)"
    and "lastIndexOf_nl (buffer s @ chunk) = Some b"
    and "ls = split_nl (take b (buffer s @ chunk))"
    and "line \<in> set ls"
    and "still_pending mid (length (pending s)) = Some k"
    and "s1 = run parse u (Write db chunk # mid) s"
    and "not_ended (calls (res s1))"
    and "s' = run parse u (Write db chunk # mid @ [Settle k]) s"
  shows "wire (calls (res s')) = wire (calls (res s1)) @ join_nl (kept parse db u ls) @ [nl]
       \<and> (db idv = Inl NotFound \<longrightarrow> line \<in> set (kept parse db u ls))
       \<and> (\<forall>doc. db idv = Inr doc \<and> isUserAllowed u doc = Inr True
             \<longrightarrow> line \<in> set (kept parse db u ls))
       \<and> (\<forall>doc. db idv = Inr doc \<and> isUserAllowed u doc = Inr False
             \<longrightarrow> line \<notin> set (kept parse db u ls))"
proof -
  have w: "wire (calls (res s')) = wire (calls (res s1)) @ join_nl (kept parse db u ls) @ [nl]"
    using assms(6,7,9,10,11,12) by (rule batch_reaches_client)
  have nf: "db idv = Inl NotFound \<longrightarrow> filterLine parse db u line = Some line"
    using assms(2-5) by (simp add: filterLine_def try_block_def)
  have al: "\<forall>doc. db idv = Inr doc \<and> isUserAllowed u doc = Inr True
      \<longrightarrow> filterLine parse db u line = Some line"
    using assms(2-5) by (simp add: filterLine_def try_block_def)
  have dn: "\<forall>doc. db idv = Inr doc \<and> isUserAllowed u doc = Inr False
      \<longrightarrow> filterLine parse db u line = None"
    using assms(2-5) by (simp add: filterLine_def try_block_def)
  from w nf al dn assms(8) show ?thesis by (simp add: kept_def)
qed

theorem C3_deletion_reaches_client_witness:
  "is_deletion feed_parse line3 \<and> store_after_delete (JStr ''class_C'') = Inl NotFound \<and>
   still_pending [Write store_live (line2 @ [nl])] 0 = Some 0 \<and>
   wire (calls (res (run feed_parse teacherP
      [Write store_after_delete (line3 @ [nl]), Write store_live (line2 @ [nl]), Settle 0]
      (new_session idle)))) = line3 @ [nl]"
proof -
  let ?s = "new_session idle"
  let ?mid = "[Write store_live (line2 @ [nl])]"
  have c: "change_id (JObj [(''seq'', JNum 3), (''id'', JStr ''class_C''),
                   (''changes'', JArr [JObj [(''rev'', JStr ''2-c'')]]),
                   (''deleted'', JBool True)]) = Inr (Some (JStr ''class_C''))"
    by simp
  have t: "truthy (Some (JStr ''class_C''))" by simp
  have b: "lastIndexOf_nl (buffer ?s @ (line3 @ [nl])) = Some (length line3)"
    using lastIndexOf_nl_last [of line3] by (simp add: new_session_def)
  have ls: "[line3] = split_nl (take (length line3) (buffer ?s @ (line3 @ [nl])))"
    using split_nl_single [OF no_nl_line3] by (simp add: new_session_def)
  have m: "line3 \<in> set [line3]" by simp
  have sp: "still_pending ?mid (length (pending ?s)) = Some 0"
    by (simp add: new_session_def)
  have s1: "calls (res (run feed_parse teacherP (Write store_after_delete (line3 @ [nl]) # ?mid) ?s)) = []"
    by (simp add: run_def res_write_one_line [OF no_nl_line3] res_write_one_line [OF no_nl_line2]
          new_session_def idle_def)
  then have ne: "not_ended (calls (res (run feed_parse teacherP
      (Write store_after_delete (line3 @ [nl]) # ?mid) ?s)))"
    by simp
  from C3_deletion_reaches_client [OF deletion_line3 trim_line3 parse_line3 c t b ls m sp refl ne refl]
    s1 after_delete_class_C deletion_line3 filter_P_line3
  show ?thesis by (simp add: kept_def)
qed

text \<open>
  Claim C4: the forwarded change lines appear in the order of their source sequence,
  also across chunks whose lookups complete at different times. The override starts
  one promise per chunk and writes from its \<^verbatim>\<open>then\<close> callback, without
  chaining the promises: when the batch of the second chunk settles before the batch of
  the first, \<open>teacherP\<close> receives the record with sequence 2 before the record with
  sequence 1.
\<close>

theorem C4_batches_settle_out_of_order:
  "calls (res (run feed_parse teacherP
      [Write store_live (line1 @ [nl]), Write store_live (line2 @ [nl]), Settle 1, Settle 0]
      (new_session idle)))
     = [Wrote (line2 @ [nl]), Wrote (line1 @ [nl])]"
  by (simp add: run_def res_write_one_line [OF no_nl_line1] res_write_one_line [OF no_nl_line2]
        settle_def filteredOutput_def filter_P_line1 filter_P_line2 originalWrite_def
        new_session_def idle_def)

text \<open>
  Claim C7 as stated: for the teacher of class C, the feed of the example produces the
  record of sequence 1 and the deletion record of sequence 3, and never the record of
  sequence 2. It fails: what reaches the client is not these two lines.
\<close>

theorem C7_counterexample:
  "wire (calls (res (run feed_parse teacherP scenario (new_session idle))))
     \<noteq> line1 @ [nl] @ line3 @ [nl]"
  by (simp add: scenario_calls line1_def line2_def line3_def)

text \<open>
  Claim C7, amended: for the teacher of class C, the feed of the example produces all
  three records in order: the student document of sequence 2 is allowed to a principal
  of role teacher by the blanket grant of rule 3, and the deletion of sequence 3 is
  forwarded because its lookup answers not-found.
\<close>

theorem C7_scenario_forwards_all_three:
  "wire (calls (res (run feed_parse teacherP scenario (new_session idle))))
     = line1 @ [nl] @ line2 @ [nl] @ line3 @ [nl]"
  by (simp add: scenario_calls)




text \<open>
  Claim C9 as stated: the write override propagates the acceptance signal of the
  underlying writer instead of always reporting acceptance. It fails: on a response
  whose underlying \<^verbatim>\<open>write\<close> reports that it cannot accept more, the override
  reports acceptance.
\<close>

theorem C9_counterexample:
  "fst (originalWrite congested (line1 @ [nl])) = False \<and>
   fst (res_write feed_parse store_live teacherP (line1 @ [nl]) (new_session congested)) = True"
  by (simp add: originalWrite_def congested_def res_write_one_line [OF no_nl_line1]
        new_session_def)

lemma run_newlines:
  "length (pending (run parse u (replicate n (Write db [nl])) s)) = length (pending s) + n
   \<and> res (run parse u (replicate n (Write db [nl])) s) = res s"
proof (induction n arbitrary: s)
  case 0
  show ?case by (simp add: run_def)
next
  case (Suc n)
  have "run parse u (replicate (Suc n) (Write db [nl])) s
      = run parse u (replicate n (Write db [nl])) (snd (res_write parse db u [nl] s))"
    by (simp add: run_def)
  with Suc [of "snd (res_write parse db u [nl] s)"] show ?case
    by (simp add: res_write_newline)
qed

text \<open>
  Claim C9, amended: the write override reports acceptance on every call, whatever the
  underlying writer signals, and holds back nothing: \<open>n\<close> writes of a newline while
  no batch settles leave \<open>n\<close> more batches in flight and the underlying response
  untouched, so the number of batches in flight has no bound.
\<close>

theorem C9_write_always_accepts:
  "fst (res_write parse db u chunk s) = True
   \<and> length (pending (run parse u (replicate n (Write db [nl])) s)) = length (pending s) + n
   \<and> res (run parse u (replicate n (Write db [nl])) s) = res s"
  using res_write_accepts run_newlines by simp

section \<open>Properties of the dispatch guard\<close>

lemma original_calls:
  "calls (res (foldl (handler_step Original parse) s evs)) = calls (res s) @ handler_calls evs"
proof (induction evs arbitrary: s)
  case Nil
  show ?case by simp
next
  case (Cons ev evs)
  show ?case
    by (cases ev) (simp_all add: Cons originalWrite_def originalEnd_def)
qed

text \<open>
  Claim C10: the middleware replaces the methods of the response only when the request
  path contains \<^verbatim>\<open>_changes\<close>, the request carries a feed query parameter and a
  user is attached; for every other request the database handler is given the response
  as it is, and the calls it makes on it reach the underlying response unchanged.
\<close>

theorem C10_filter_scope:
  "(createPouchFilterMiddleware req = Filtering u \<longrightarrow>
      str_includes (path req) ''_changes'' \<and> query_feed req \<noteq> None \<and> req_user req = Some u)
   \<and> (\<not> (str_includes (path req) ''_changes'' \<and> query_feed req \<noteq> None \<and> req_user req \<noteq> None) \<longrightarrow>
      createPouchFilterMiddleware req = Original \<and>
      calls (res (respond req parse evs t)) = calls t @ handler_calls evs)"
proof -
  have "truthy (query_feed req) \<Longrightarrow> query_feed req \<noteq> None"
    by (cases "query_feed req") simp_all
  then show ?thesis
    by (auto simp add: createPouchFilterMiddleware_def respond_def original_calls new_session_def
          split: option.splits)
qed

theorem C10_filter_scope_witness:
  "createPouchFilterMiddleware changes_request = Filtering teacherP
   \<and> str_includes (path changes_request) ''_changes''
   \<and> query_feed changes_request = Some (JStr ''longpoll'')
   \<and> str_includes (path document_request) ''_changes'' = False
   \<and> createPouchFilterMiddleware document_request = Original
   \<and> calls (res (respond document_request feed_parse [Write store_live line1, End None] idle))
       = [Wrote line1, Ended None]"
proof -
  have p: "str_includes (path changes_request) ''_changes''"
    by (simp add: changes_request_def)
  have q: "str_includes (path document_request) ''_changes'' = False"
    by (simp add: document_request_def)
  have f: "createPouchFilterMiddleware changes_request = Filtering teacherP"
    using p by (simp add: createPouchFilterMiddleware_def) (simp add: changes_request_def)
  from C10_filter_scope [of changes_request teacherP]
    C10_filter_scope [of document_request studentS feed_parse
      "[Write store_live line1, End None]" idle]
    p q f
  show ?thesis by (simp add: changes_request_def idle_def)
qed

end
